theory Spec2Isabelle
  imports Complex_Main
begin

section \<open>Data model (src/types/form.ts)\<close>

text \<open>
  A JavaScript \<open>number\<close> that carries a currency amount is modelled as an exact
  rational (\<open>rat\<close>): sums, products with the decimal tax rates and \<open>Math.floor\<close>
  are then exact, and \<open>Math.floor\<close> is \<open>floor :: rat \<Rightarrow> int\<close>. Binary floating-point
  rounding and the value NaN are outside the model. On a number \<open>x\<close> that is not NaN the
  source's defaults \<open>x || 0\<close> and \<open>x ?? 0\<close> are \<open>x\<close> itself, so they do not appear.
  An array that the source walks with \<open>forEach\<close> is a list, walked with \<open>foldl\<close>.
\<close>

record W2Form =
  wages :: rat
  federalTaxWithheld :: rat
  stateTaxWithheld :: rat
  socialSecurityWithheld :: rat
  medicareWithheld :: rat
  ein :: string

record Form1099INT =
  interestIncome :: rat
  federalTaxWithheld :: rat
  stateTaxWithheld :: rat

record Form1099MISC =
  otherIncome :: rat
  federalTaxWithheld :: rat
  stateTaxWithheld :: rat

datatype IncomeState = Illinois | Other

record IncomeInfo =
  hadUSIncome :: bool
  incomeState :: "IncomeState option"
  ssn :: "string option"
  w2Forms :: "W2Form list"
  form1099INT :: "Form1099INT list"
  form1099MISC :: "Form1099MISC list"

text \<open>
  \<open>country\<close> is \<open>None\<close> when \<open>formData.personalInfo?.foreignAddress?.country\<close> is
  undefined.
\<close>

record ForeignAddress =
  country :: "string option"

record PersonalInfo =
  firstName :: string
  lastName :: string
  foreignAddress :: ForeignAddress

text \<open>
  A visit's dates are the strings \<open>YYYY-MM-DD\<close> the date picker stores, held here as the
  number of the day they name (days since 1970-01-01); \<open>None\<close> is the empty or missing
  string.
\<close>

record Visit =
  visaType :: string
  entryDate :: "int option"
  exitDate :: "int option"

record ResidencyInfo =
  visits :: "Visit list"

record FormData =
  personalInfo :: PersonalInfo
  residencyInfo :: ResidencyInfo
  incomeInfo :: IncomeInfo

section \<open>Tax results (\<open>TaxCalculationResult\<close>, src/unnamed/part_002)\<close>

record FederalForms =
  form8843 :: bool
  form1040 :: bool
  form832 :: bool

record FederalTax =
  taxOwed :: int
  refund :: int
  amountOwed :: int
  forms :: FederalForms

record StateForms =
  form1040 :: bool

record StateTax =
  taxOwed :: int
  refund :: int
  amountOwed :: int
  forms :: StateForms

record TaxCalculationResult =
  federalTax :: FederalTax
  stateTax :: StateTax

section \<open>Federal tax, India rule (src/lib/tax-calculation/federal/india.ts)\<close>

text \<open>A bracket whose \<open>max\<close> is \<open>Infinity\<close> has \<open>maxB = None\<close>.\<close>

record TaxBracket =
  minB :: rat
  maxB :: "rat option"
  rate :: rat
  base :: rat

definition TAX_BRACKETS :: "TaxBracket list" where
  "TAX_BRACKETS =
    [\<lparr>minB = 0, maxB = Some 11925, rate = 0.10, base = 0\<rparr>,
     \<lparr>minB = 11926, maxB = Some 48475, rate = 0.12, base = 1192.50\<rparr>,
     \<lparr>minB = 48476, maxB = Some 103350, rate = 0.22, base = 5578.50\<rparr>,
     \<lparr>minB = 103351, maxB = Some 197300, rate = 0.24, base = 17651.00\<rparr>,
     \<lparr>minB = 197301, maxB = Some 250525, rate = 0.32, base = 40199.00\<rparr>,
     \<lparr>minB = 250526, maxB = Some 626350, rate = 0.35, base = 57231.00\<rparr>,
     \<lparr>minB = 626351, maxB = None, rate = 0.37, base = 188769.75\<rparr>]"

definition STANDARD_DEDUCTION :: rat where
  "STANDARD_DEDUCTION = 15750"

definition calculateGrossIncome :: "FormData \<Rightarrow> rat" where
  "calculateGrossIncome formData =
    (let total = 0;
         total = foldl (\<lambda>total w2. total + wages w2) total (w2Forms (incomeInfo formData));
         total = foldl (\<lambda>total form. total + interestIncome form) total
                   (form1099INT (incomeInfo formData));
         total = foldl (\<lambda>total form. total + otherIncome form) total
                   (form1099MISC (incomeInfo formData))
     in total)"

definition calculateTotalTaxWithheld :: "FormData \<Rightarrow> rat" where
  "calculateTotalTaxWithheld formData =
    (let total = 0;
         total = foldl (\<lambda>total w2. total + W2Form.federalTaxWithheld w2) total
                   (w2Forms (incomeInfo formData));
         total = foldl (\<lambda>total form. total + Form1099INT.federalTaxWithheld form) total
                   (form1099INT (incomeInfo formData));
         total = foldl (\<lambda>total form. total + Form1099MISC.federalTaxWithheld form) total
                   (form1099MISC (incomeInfo formData))
     in total)"

definition inBracket :: "rat \<Rightarrow> TaxBracket \<Rightarrow> bool" where
  "inBracket taxableIncome b \<longleftrightarrow>
     taxableIncome \<ge> minB b \<and> (case maxB b of None \<Rightarrow> True | Some m \<Rightarrow> taxableIncome \<le> m)"

definition calculateProgressiveTax :: "rat \<Rightarrow> rat" where
  "calculateProgressiveTax taxableIncome =
    (if taxableIncome \<le> 0 then 0
     else case find (inBracket taxableIncome) TAX_BRACKETS of
            None \<Rightarrow> 0
          | Some bracket \<Rightarrow>
              (let amountOverBracketMin = taxableIncome - minB bracket;
                   additionalTax = amountOverBracketMin * rate bracket
               in base bracket + additionalTax))"

text \<open>The locals of \<open>calculateFederalTax\<close>, in the order the source computes them.\<close>

definition federalTaxableIncome :: "FormData \<Rightarrow> int" where
  "federalTaxableIncome formData =
     \<lfloor>max 0 (calculateGrossIncome formData - STANDARD_DEDUCTION)\<rfloor>"

definition federalTaxOwed :: "FormData \<Rightarrow> int" where
  "federalTaxOwed formData =
     \<lfloor>calculateProgressiveTax (of_int (federalTaxableIncome formData))\<rfloor>"

definition totalFICAWithheld :: "FormData \<Rightarrow> rat" where
  "totalFICAWithheld formData =
     foldl (\<lambda>total w2. total + (socialSecurityWithheld w2 + medicareWithheld w2)) 0
       (w2Forms (incomeInfo formData))"

definition calculateFederalTax :: "FormData \<Rightarrow> FederalTax" where
  "calculateFederalTax formData =
    (let taxWithheld = calculateTotalTaxWithheld formData;
         taxOwed = federalTaxOwed formData;
         refund = \<lfloor>max 0 (taxWithheld - of_int taxOwed)\<rfloor>;
         amountOwed = \<lfloor>max 0 (of_int taxOwed - taxWithheld)\<rfloor>;
         hasFICAWithheld = (totalFICAWithheld formData > 0)
     in \<lparr>FederalTax.taxOwed = taxOwed, FederalTax.refund = refund,
         FederalTax.amountOwed = amountOwed,
         FederalTax.forms =
           \<lparr>form8843 = True, FederalForms.form1040 = hadUSIncome (incomeInfo formData),
            form832 = hasFICAWithheld\<rparr>\<rparr>)"

section \<open>Illinois state tax (\<open>calculateStateTax\<close>, src/unnamed/part_002)\<close>

definition ILLINOIS_TAX_RATE :: rat where
  "ILLINOIS_TAX_RATE = 0.0495"

definition PERSONAL_EXEMPTION_SINGLE :: rat where
  "PERSONAL_EXEMPTION_SINGLE = 2850"

definition HIGH_INCOME_THRESHOLD :: rat where
  "HIGH_INCOME_THRESHOLD = 250000"

text \<open>The state file has its own copy of the gross-income sum.\<close>

definition calculateGrossIncomeIL :: "FormData \<Rightarrow> rat" where
  "calculateGrossIncomeIL formData =
    (let total = 0;
         total = foldl (\<lambda>total w2. total + wages w2) total (w2Forms (incomeInfo formData));
         total = foldl (\<lambda>total form. total + interestIncome form) total
                   (form1099INT (incomeInfo formData));
         total = foldl (\<lambda>total form. total + otherIncome form) total
                   (form1099MISC (incomeInfo formData))
     in total)"

definition calculateStateTaxWithheld :: "FormData \<Rightarrow> int" where
  "calculateStateTaxWithheld formData =
    (let total = 0;
         total = foldl (\<lambda>total w2. total + \<lfloor>W2Form.stateTaxWithheld w2\<rfloor>) total
                   (w2Forms (incomeInfo formData));
         total = foldl (\<lambda>total form. total + \<lfloor>Form1099INT.stateTaxWithheld form\<rfloor>) total
                   (form1099INT (incomeInfo formData));
         total = foldl (\<lambda>total form. total + \<lfloor>Form1099MISC.stateTaxWithheld form\<rfloor>) total
                   (form1099MISC (incomeInfo formData))
     in total)"

definition stateExemption :: "FormData \<Rightarrow> rat" where
  "stateExemption formData =
     (if calculateGrossIncomeIL formData > HIGH_INCOME_THRESHOLD then 0
      else PERSONAL_EXEMPTION_SINGLE)"

definition stateTaxableIncome :: "FormData \<Rightarrow> int" where
  "stateTaxableIncome formData =
     \<lfloor>max 0 (calculateGrossIncomeIL formData - stateExemption formData)\<rfloor>"

definition stateTaxOwed :: "FormData \<Rightarrow> int" where
  "stateTaxOwed formData = \<lfloor>of_int (stateTaxableIncome formData) * ILLINOIS_TAX_RATE\<rfloor>"

definition calculateStateTax :: "FormData \<Rightarrow> StateTax" where
  "calculateStateTax formData =
    (let stateTaxWithheld = calculateStateTaxWithheld formData;
         taxOwed = stateTaxOwed formData;
         refund = \<lfloor>max 0 (of_int (stateTaxWithheld - taxOwed) :: rat)\<rfloor>;
         amountOwed = \<lfloor>max 0 (of_int (taxOwed - stateTaxWithheld) :: rat)\<rfloor>
     in \<lparr>StateTax.taxOwed = taxOwed, StateTax.refund = refund,
         StateTax.amountOwed = amountOwed,
         StateTax.forms = \<lparr>StateForms.form1040 = hadUSIncome (incomeInfo formData)\<rparr>\<rparr>)"

section \<open>Dispatch by country and state (\<open>calculateTax\<close>, src/unnamed/part_002)\<close>

text \<open>
  Strings are ASCII: \<open>toLowerCase\<close> maps the letters A to Z, and \<open>trim\<close> strips tab,
  line feed, vertical tab, form feed, carriage return and space from both ends.
  A thrown \<open>Error\<close> is the left summand, carrying its message.
\<close>

datatype error = Error string

definition toLowerCaseChar :: "char \<Rightarrow> char" where
  "toLowerCaseChar c =
     (let n = of_char c :: nat in if 65 \<le> n \<and> n \<le> 90 then char_of (n + 32) else c)"

definition toLowerCase :: "string \<Rightarrow> string" where
  "toLowerCase s = map toLowerCaseChar s"

definition isWhiteSpace :: "char \<Rightarrow> bool" where
  "isWhiteSpace c \<longleftrightarrow> (let n = of_char c :: nat in (9 \<le> n \<and> n \<le> 13) \<or> n = 32)"

definition trim :: "string \<Rightarrow> string" where
  "trim s = rev (dropWhile isWhiteSpace (rev (dropWhile isWhiteSpace s)))"

text \<open>A string is falsy when it is undefined or empty.\<close>

definition falsy :: "string option \<Rightarrow> bool" where
  "falsy s \<longleftrightarrow> (case s of None \<Rightarrow> True | Some v \<Rightarrow> v = [])"

definition orElse :: "string option \<Rightarrow> string \<Rightarrow> string" where
  "orElse s d = (case s of None \<Rightarrow> d | Some v \<Rightarrow> if v = [] then d else v)"

definition zeroStateTax :: StateTax where
  "zeroStateTax =
     \<lparr>StateTax.taxOwed = 0, StateTax.refund = 0, StateTax.amountOwed = 0,
      StateTax.forms = \<lparr>StateForms.form1040 = False\<rparr>\<rparr>"

definition calculateTax :: "FormData \<Rightarrow> error + TaxCalculationResult" where
  "calculateTax formData =
    (let countryRaw = orElse (country (foreignAddress (personalInfo formData))) ''India'';
         country' = trim (toLowerCase countryRaw);
         incomeStateIsIllinois = (incomeState (incomeInfo formData) = Some Illinois)
     in if country' = ''india'' \<or> country' = ''indian'' \<or> country' = [] \<or>
           country' = ''foreign country'' \<or>
           falsy (country (foreignAddress (personalInfo formData)))
        then
          (let federalResult = calculateFederalTax formData;
               stateResult = (if incomeStateIsIllinois then calculateStateTax formData
                              else zeroStateTax)
           in Inr \<lparr>federalTax = federalResult, stateTax = stateResult\<rparr>)
        else
          Inl (Error (''Federal tax calculation not yet supported for '' @ countryRaw @
                      '' students. Currently only India is supported.'')))"

section \<open>Field formatting (the pdf-filler module, in src/lib/form-generation/package-fica.ts)\<close>

text \<open>
  \<open>String(n)\<close> of an integer is its decimal numeral (integers below \<open>10^21\<close>, where
  JavaScript does not switch to exponent notation).
\<close>

function digitsOf :: "int \<Rightarrow> string" where
  "digitsOf n =
     (if n < 10 then [char_of (48 + n)]
      else digitsOf (n div 10) @ [char_of (48 + n mod 10)])"
  by pat_completeness auto
termination
  by (relation "measure nat") auto

declare digitsOf.simps [simp del]

definition String_int :: "int \<Rightarrow> string" where
  "String_int i = (if i < 0 then CHR ''-'' # digitsOf (- i) else digitsOf i)"

definition formatCurrencyForPDFWholeOnly :: "rat \<Rightarrow> string" where
  "formatCurrencyForPDFWholeOnly amount = String_int \<lfloor>amount\<rfloor>"

definition isDigit :: "char \<Rightarrow> bool" where
  "isDigit c \<longleftrightarrow> (let n = of_char c :: nat in 48 \<le> n \<and> n \<le> 57)"

text \<open>\<open>s.replace(/\D/g, '')\<close> keeps the digits of \<open>s\<close>.\<close>

definition digitsOnly :: "string \<Rightarrow> string" where
  "digitsOnly s = filter isDigit s"

text \<open>\<open>s.slice(a, b)\<close> and \<open>s.slice(a)\<close> for indices that are not negative.\<close>

definition slice :: "string \<Rightarrow> nat \<Rightarrow> nat \<Rightarrow> string" where
  "slice s a b = take (b - a) (drop a s)"

definition sliceFrom :: "string \<Rightarrow> nat \<Rightarrow> string" where
  "sliceFrom s a = drop a s"

definition formatSSN :: "string \<Rightarrow> string" where
  "formatSSN ssn' =
     (if ssn' = [] then []
      else (let cleaned = digitsOnly ssn'
            in if length cleaned = 9
               then slice cleaned 0 3 @ ''-'' @ slice cleaned 3 5 @ ''-'' @ sliceFrom cleaned 5
               else cleaned))"

text \<open>
  A loaded template is a map from field names to the text set; every field a mapper
  names is taken to exist in its template, so \<open>setTextField\<close> always stores
  (\<open>value || ''\<close> is \<open>value\<close> on a string).
\<close>

type_synonym PDFForm = "string \<rightharpoonup> string"

definition setTextField :: "PDFForm \<Rightarrow> string \<Rightarrow> string \<Rightarrow> PDFForm" where
  "setTextField pdf fieldName v = pdf(fieldName \<mapsto> v)"

section \<open>Form mappers: the fields that carry an SSN, an EIN or the Illinois withholding\<close>

text \<open>
  Of each mapper only the writes named in the section title are modelled; all other
  fields of the templates are left out.
\<close>

definition ssnOrEmpty :: "FormData \<Rightarrow> string" where
  "ssnOrEmpty formData = orElse (ssn (incomeInfo formData)) []"

subsection \<open>\<open>fillForm8843\<close> and \<open>fillForm843\<close> (src/lib/form-generation/forms/form8843.ts), \<open>fillForm1040NRO\<close> (src/unnamed/part_004)\<close>




subsection \<open>\<open>fillForm1040NR\<close> (in src/lib/form-generation/forms/formIL1040.ts)\<close>


subsection \<open>\<open>fillForm8316\<close> (src/lib/form-generation/forms/form8316.ts)\<close>


subsection \<open>\<open>fillFormIL1040\<close> (src/lib/form-generation/forms/formIL1040.ts)\<close>

definition calculateStateTaxWithheldForForms :: "FormData \<Rightarrow> int" where
  "calculateStateTaxWithheldForForms formData =
    (let total = 0;
         total = foldl (\<lambda>total w2. total + \<lfloor>W2Form.stateTaxWithheld w2\<rfloor>) total
                   (w2Forms (incomeInfo formData));
         total = foldl (\<lambda>total form. total + \<lfloor>Form1099INT.stateTaxWithheld form\<rfloor>) total
                   (form1099INT (incomeInfo formData));
         total = foldl (\<lambda>total form. total + \<lfloor>Form1099MISC.stateTaxWithheld form\<rfloor>) total
                   (form1099MISC (incomeInfo formData))
     in total)"

definition fillFormIL1040 :: "FormData \<Rightarrow> PDFForm" where
  "fillFormIL1040 formData =
     (let stateTaxWithheld = calculateStateTaxWithheldForForms formData;
          pdf = Map.empty;
          pdf = setTextField pdf ''step1-A-ssn'' (formatSSN (ssnOrEmpty formData));
          pdf = setTextField pdf ''Illinois Income Tax withheld''
                  (formatCurrencyForPDFWholeOnly (of_int stateTaxWithheld));
          pdf = setTextField pdf ''Total payments and refundable credit''
                  (formatCurrencyForPDFWholeOnly (of_int stateTaxWithheld))
      in pdf)"

subsection \<open>\<open>fillFormIL1040ScheduleILWIT\<close> (src/lib/form-generation/forms/formIL1040ScheduleILWIT.ts)\<close>

definition MAX_W2_ROWS :: nat where
  "MAX_W2_ROWS = 5"

text \<open>
  The body of the \<open>for\<close> loop for row \<open>i\<close>, on the template and the running total.
  \<open>w2Forms[i]\<close> is read only for \<open>i < w2Forms.length\<close>.
\<close>

definition ilwitRow :: "W2Form \<Rightarrow> nat \<Rightarrow> PDFForm \<times> int \<Rightarrow> PDFForm \<times> int" where
  "ilwitRow w2 i st =
     (let pdf = fst st;
          totalIllinoisWithheld = snd st;
          n = String_int (int i + 1);
          wages' = wages w2;
          illinoisWithheld = W2Form.stateTaxWithheld w2;
          illinoisWithheldFloored = \<lfloor>illinoisWithheld\<rfloor>;
          ein' = digitsOnly (ein w2);
          totalIllinoisWithheld = totalIllinoisWithheld + illinoisWithheldFloored;
          pdf = setTextField pdf (''Form type - '' @ n) ''W'';
          pdf = setTextField pdf (''EIN - '' @ n) ein';
          pdf = setTextField pdf (''Federal wages - '' @ n) (formatCurrencyForPDFWholeOnly wages');
          pdf = setTextField pdf (''Illinois wages - '' @ n) (formatCurrencyForPDFWholeOnly wages');
          pdf = setTextField pdf (''Illinois withheld - '' @ n) (String_int illinoisWithheldFloored)
      in (pdf, totalIllinoisWithheld))"

function ilwitLoop :: "W2Form list \<Rightarrow> nat \<Rightarrow> PDFForm \<times> int \<Rightarrow> PDFForm \<times> int" where
  "ilwitLoop w2s i st =
     (if i < min (length w2s) MAX_W2_ROWS
      then ilwitLoop w2s (i + 1) (ilwitRow (w2s ! i) i st)
      else st)"
  by pat_completeness auto
termination
  by (relation "measure (\<lambda>(w2s, i, st). min (length w2s) MAX_W2_ROWS - i)") auto

declare ilwitLoop.simps [simp del]

definition fillFormIL1040ScheduleILWIT :: "FormData \<Rightarrow> PDFForm" where
  "fillFormIL1040ScheduleILWIT formData =
     (let fullName = trim (firstName (personalInfo formData) @ '' '' @
                           lastName (personalInfo formData));
          ssnDigits = digitsOnly (ssnOrEmpty formData);
          ssn3 = (if length ssnDigits \<ge> 3 then slice ssnDigits 0 3 else ssnDigits);
          ssn2 = (if length ssnDigits \<ge> 5 then slice ssnDigits 3 5 else []);
          ssn4 = (if length ssnDigits \<ge> 9 then slice ssnDigits 5 9 else []);
          pdf = Map.empty;
          pdf = setTextField pdf ''Your name'' fullName;
          pdf = setTextField pdf ''Your SSN-3'' ssn3;
          pdf = setTextField pdf ''Your SSN-2'' ssn2;
          pdf = setTextField pdf ''Your SSN-4'' ssn4;
          w2s = w2Forms (incomeInfo formData);
          st = ilwitLoop w2s 0 (pdf, 0);
          pdf = setTextField (fst st) ''Total amount'' (String_int (snd st))
      in pdf)"

section \<open>Days of presence (src/lib/form-generation/utils/days-calculator.ts)\<close>

text \<open>
  A \<open>Date\<close> is its time value: milliseconds since 1970-01-01T00:00 UTC. The function
  reads two things from its environment, which are parameters here: the offset of local
  time from UTC in milliseconds (taken as constant: no daylight saving), and the clock
  (\<open>new Date()\<close>, whose readings during one call are taken to be one value).
  \<^item> \<open>new Date('YYYY-MM-DD')\<close> is midnight UTC of that day: ECMAScript reads a date-only
    string as UTC. The year boundaries and the visits' dates are such strings (the year
    has four digits).
  \<^item> \<open>d.setHours(0, 0, 0, 0)\<close> moves \<open>d\<close> back to the last local midnight.
\<close>

record Env =
  tzOffset :: int
  now :: int

definition msPerDay :: int where
  "msPerDay = 1000 * 60 * 60 * 24"

text \<open>Days from 1970-01-01 to the civil date \<open>y-m-d\<close> (proleptic Gregorian calendar).\<close>

definition daysFromCivil :: "int \<Rightarrow> int \<Rightarrow> int \<Rightarrow> int" where
  "daysFromCivil y m d =
     (let y' = (if m \<le> 2 then y - 1 else y);
          era = y' div 400;
          yoe = y' - era * 400;
          doy = (153 * (if m > 2 then m - 3 else m + 9) + 2) div 5 + d - 1;
          doe = yoe * 365 + yoe div 4 - yoe div 100 + doy
      in era * 146097 + doe - 719468)"

definition dateOnly :: "int \<Rightarrow> int" where
  "dateOnly day = day * msPerDay"

definition setHours0 :: "Env \<Rightarrow> int \<Rightarrow> int" where
  "setHours0 env t = t - (t + tzOffset env) mod msPerDay"

text \<open>
  The body of \<open>visits.forEach\<close>. Its state is the running total and the time value of
  \<open>taxYearEnd\<close>: when a visit has no exit date and the clock is not before
  \<open>taxYearEnd\<close>, \<open>exit\<close> is the object \<open>taxYearEnd\<close> itself, and \<open>exit.setHours\<close>
  changes it for this visit and for every later one.
\<close>

definition visitStep :: "Env \<Rightarrow> int \<Rightarrow> int \<times> int \<Rightarrow> Visit \<Rightarrow> int \<times> int" where
  "visitStep env taxYearStart st visit =
     (let totalDays = fst st; taxYearEnd = snd st
      in case entryDate visit of
           None \<Rightarrow> (totalDays, taxYearEnd)
         | Some entryDay \<Rightarrow>
             (let entry = setHours0 env (dateOnly entryDay);
                  taxYearEnd = (if exitDate visit = None \<and> \<not> now env < taxYearEnd
                                then setHours0 env taxYearEnd else taxYearEnd);
                  exit = (case exitDate visit of
                            Some exitDay \<Rightarrow> setHours0 env (dateOnly exitDay)
                          | None \<Rightarrow> if now env < snd st then setHours0 env (now env)
                                    else taxYearEnd);
                  startDate = (if entry > taxYearStart then entry else taxYearStart);
                  endDate = (if exit < taxYearEnd then exit else taxYearEnd)
              in if startDate \<le> endDate
                 then (let diffTime = endDate - startDate;
                           diffDays = diffTime div msPerDay
                       in if exitDate visit \<noteq> None \<and> exit \<le> taxYearEnd \<and> exit \<ge> taxYearStart
                          then (totalDays + diffDays, taxYearEnd)
                          else (totalDays + diffDays + 1, taxYearEnd))
                 else (totalDays, taxYearEnd)))"

definition calculateDaysInUSForYear :: "Env \<Rightarrow> ResidencyInfo \<Rightarrow> int \<Rightarrow> int" where
  "calculateDaysInUSForYear env residency year =
     (let totalDays = 0;
          taxYearStart = dateOnly (daysFromCivil year 1 1);
          taxYearEnd = dateOnly (daysFromCivil year 12 31)
      in fst (foldl (visitStep env taxYearStart) (totalDays, taxYearEnd)
                (visits residency)))"

section \<open>The results page (\<open>SuccessPage\<close>, in src/tailwind.config.ts)\<close>

definition hasNetUnderpayment :: "TaxCalculationResult \<Rightarrow> bool" where
  "hasNetUnderpayment taxResult =
     (let totalRefund = FederalTax.refund (federalTax taxResult) +
                        StateTax.refund (stateTax taxResult);
          totalOwed = FederalTax.amountOwed (federalTax taxResult) +
                      StateTax.amountOwed (stateTax taxResult)
      in totalOwed > totalRefund)"

text \<open>
  The component's state (\<open>error\<close>, \<open>formData\<close> and \<open>taxResult\<close> are the fields
  \<open>pageError\<close>, \<open>pageFormData\<close> and \<open>pageTaxResult\<close>), and what it renders: the views in the order of the
  component's early returns. The last view carries whether the button
  ``Proceed to Payment'' is rendered and whether the refusal message is.
\<close>

record PageState =
  isCalculating :: bool
  pageError :: "string option"
  pageFormData :: "FormData option"
  pageTaxResult :: "TaxCalculationResult option"

datatype View =
    CalculatingView
  | ErrorView
  | Form8843OnlyView
  | NullView
  | ResultsView bool bool

definition SuccessPage :: "PageState \<Rightarrow> View" where
  "SuccessPage s =
     (if isCalculating s then CalculatingView
      else if pageError s \<noteq> None then ErrorView
      else if \<not> (case pageFormData s of None \<Rightarrow> False
                   | Some fd \<Rightarrow> hadUSIncome (incomeInfo fd)) then Form8843OnlyView
      else case pageTaxResult s of
             None \<Rightarrow> NullView
           | Some r \<Rightarrow> ResultsView (\<not> hasNetUnderpayment r) (hasNetUnderpayment r))"

text \<open>
  The effect that fills the state when the page loads, from the form data read out of
  the session storage (\<open>None\<close> when there is none), taken at the point where the promise
  of \<open>calculateTax\<close> has settled. \<open>completeFormData\<close> fills in the defaults; on a
  string, \<open>x || ''\<close> is \<open>x\<close>, so only the default of the country shows.
\<close>

definition completeFormData :: "FormData \<Rightarrow> FormData" where
  "completeFormData parsedData =
     parsedData\<lparr>personalInfo := (personalInfo parsedData)
       \<lparr>foreignAddress :=
          \<lparr>country = Some (orElse (country (foreignAddress (personalInfo parsedData)))
                                ''India'')\<rparr>\<rparr>\<rparr>"

definition loadPage :: "FormData option \<Rightarrow> PageState" where
  "loadPage storedData =
     (case storedData of
        None \<Rightarrow>
          \<lparr>isCalculating = False, pageError = Some ''No form data found. Please start over.'',
           pageFormData = None, pageTaxResult = None\<rparr>
      | Some parsedData \<Rightarrow>
          if \<not> hadUSIncome (incomeInfo parsedData)
          then \<lparr>isCalculating = False, pageError = None, pageFormData = Some parsedData,
                pageTaxResult = None\<rparr>
          else (case calculateTax (completeFormData parsedData) of
                  Inr result \<Rightarrow>
                    \<lparr>isCalculating = False, pageError = None,
                     pageFormData = Some parsedData, pageTaxResult = Some result\<rparr>
                | Inl (Error message) \<Rightarrow>
                    \<lparr>isCalculating = False,
                     pageError = Some (orElse (Some message) ''Failed to calculate taxes''),
                     pageFormData = Some parsedData, pageTaxResult = None\<rparr>))"

section \<open>Concrete inputs of the closed theorems\<close>

definition w2Of :: "rat \<Rightarrow> rat \<Rightarrow> rat \<Rightarrow> W2Form" where
  "w2Of w f s =
     \<lparr>wages = w, W2Form.federalTaxWithheld = f, W2Form.stateTaxWithheld = s,
      socialSecurityWithheld = 0, medicareWithheld = 0, ein = ''12-3456789''\<rparr>"

definition intOf :: "rat \<Rightarrow> rat \<Rightarrow> rat \<Rightarrow> Form1099INT" where
  "intOf a f s =
     \<lparr>interestIncome = a, Form1099INT.federalTaxWithheld = f,
      Form1099INT.stateTaxWithheld = s\<rparr>"

text \<open>
  A filer with the given foreign country, SSN, W-2s and 1099-INTs, income earned in
  Illinois, no 1099-MISC and no visits.
\<close>

definition formDataOf ::
  "string option \<Rightarrow> string option \<Rightarrow> W2Form list \<Rightarrow> Form1099INT list \<Rightarrow> FormData" where
  "formDataOf c sn ws ints =
     \<lparr>personalInfo = \<lparr>firstName = ''Asha'', lastName = ''Rao'',
                       foreignAddress = \<lparr>country = c\<rparr>\<rparr>,
      residencyInfo = \<lparr>visits = []\<rparr>,
      incomeInfo = \<lparr>hadUSIncome = True, incomeState = Some Illinois, ssn = sn,
                     w2Forms = ws, form1099INT = ints, form1099MISC = []\<rparr>\<rparr>"

text \<open>A tax result with the given federal and state refund and amount owed.\<close>

definition resultOf :: "int \<Rightarrow> int \<Rightarrow> int \<Rightarrow> int \<Rightarrow> TaxCalculationResult" where
  "resultOf fedRefund fedOwed stRefund stOwed =
     \<lparr>federalTax =
        \<lparr>FederalTax.taxOwed = fedOwed, FederalTax.refund = fedRefund,
         FederalTax.amountOwed = fedOwed,
         FederalTax.forms =
           \<lparr>form8843 = True, FederalForms.form1040 = True, form832 = False\<rparr>\<rparr>,
      stateTax =
        \<lparr>StateTax.taxOwed = stOwed, StateTax.refund = stRefund,
         StateTax.amountOwed = stOwed,
         StateTax.forms = \<lparr>StateForms.form1040 = True\<rparr>\<rparr>\<rparr>"

text \<open>
  An environment whose local time is the given number of minutes ahead of UTC and whose
  clock stands at noon UTC of the given day; and a visit with the given dates.
\<close>

definition envOf :: "int \<Rightarrow> int \<Rightarrow> Env" where
  "envOf offsetMinutes nowDay =
     \<lparr>tzOffset = offsetMinutes * 60 * 1000, now = dateOnly nowDay + 12 * 60 * 60 * 1000\<rparr>"

definition visitOf :: "int option \<Rightarrow> int option \<Rightarrow> Visit" where
  "visitOf a b = \<lparr>visaType = ''F1'', entryDate = a, exitDate = b\<rparr>"

section \<open>Days of presence in whole days, after the comments of days-calculator.ts\<close>

text \<open>
  What the header and the comments of the source say a visit contributes to a year,
  counted in days: the day of arrival is included and the day of departure is not; a
  stay that runs past the year, or that has no exit date, is counted up to and including
  the last day it covers (31 December, or today when the year is not over). This
  definition is not a translation of the code; the code is compared with it below.
\<close>

definition daysPresentOfVisit :: "int \<Rightarrow> int \<Rightarrow> Visit \<Rightarrow> int" where
  "daysPresentOfVisit nowMs year v =
     (case entryDate v of
        None \<Rightarrow> 0
      | Some a \<Rightarrow>
          (let s = daysFromCivil year 1 1;
               e = daysFromCivil year 12 31;
               first = max a s
           in case exitDate v of
                Some b \<Rightarrow>
                  if b < s then 0
                  else if b \<le> e then (if first \<le> b then b - first else 0)
                  else (if first \<le> e then e - first + 1 else 0)
              | None \<Rightarrow>
                  (let last = (if nowMs < dateOnly e then nowMs div msPerDay else e)
                   in if first \<le> last then last - first + 1 else 0)))"

section \<open>Helper lemmas\<close>

lemma foldl_add_sum_list:
  fixes s :: "'a::comm_monoid_add"
  shows "foldl (\<lambda>total x. total + f x) s xs = s + sum_list (map f xs)"
  by (induction xs arbitrary: s) (simp_all add: add.assoc)




section \<open>Federal tax: the India rule\<close>








section \<open>Illinois tax\<close>




section \<open>Refund and amount owed\<close>





section \<open>Net underpayment on the results page\<close>

text \<open>
  Claim C5. The button that leads to payment is rendered only in the view that shows a
  tax result, which holds the federal and the state result together; there it is
  rendered exactly when the sum of the two amounts owed does not exceed the sum of the
  two refunds, and the refusal message is rendered otherwise. The result that the page
  holds after loading is the one \<open>calculateTax\<close> returned. A federal refund of 200 with
  a state amount owed of 500 is refused.
\<close>

theorem C5_net_underpayment_refusal:
  "(hasNetUnderpayment r \<longleftrightarrow>
      FederalTax.amountOwed (federalTax r) + StateTax.amountOwed (stateTax r) >
      FederalTax.refund (federalTax r) + StateTax.refund (stateTax r)) \<and>
   SuccessPage \<lparr>isCalculating = False, pageError = None, pageFormData = Some fd,
                pageTaxResult = Some r\<rparr> =
     (if hadUSIncome (incomeInfo fd)
      then ResultsView (\<not> hasNetUnderpayment r) (hasNetUnderpayment r)
      else Form8843OnlyView) \<and>
   (\<forall>shown refused. SuccessPage (s\<lparr>pageTaxResult := None\<rparr>) \<noteq> ResultsView shown refused) \<and>
   SuccessPage (loadPage (Some fd)) =
     (if \<not> hadUSIncome (incomeInfo fd) then Form8843OnlyView
      else case calculateTax (completeFormData fd) of
             Inl e \<Rightarrow> ErrorView
           | Inr result \<Rightarrow>
               ResultsView (\<not> hasNetUnderpayment result) (hasNetUnderpayment result)) \<and>
   hasNetUnderpayment (resultOf 200 0 0 500) \<and>
   SuccessPage \<lparr>isCalculating = False, pageError = None, pageFormData = Some fd,
                pageTaxResult = Some (resultOf 200 0 0 500)\<rparr> =
     (if hadUSIncome (incomeInfo fd) then ResultsView False True else Form8843OnlyView)"
proof -
  have a: "hasNetUnderpayment r \<longleftrightarrow>
      FederalTax.amountOwed (federalTax r) + StateTax.amountOwed (stateTax r) >
      FederalTax.refund (federalTax r) + StateTax.refund (stateTax r)"
    by (simp add: hasNetUnderpayment_def Let_def)
  have b: "SuccessPage \<lparr>isCalculating = False, pageError = None, pageFormData = Some fd,
                pageTaxResult = Some r\<rparr> =
     (if hadUSIncome (incomeInfo fd)
      then ResultsView (\<not> hasNetUnderpayment r) (hasNetUnderpayment r)
      else Form8843OnlyView)" for r
    by (simp add: SuccessPage_def)
  have c: "\<forall>shown refused. SuccessPage (s\<lparr>pageTaxResult := None\<rparr>) \<noteq> ResultsView shown refused"
    by (simp add: SuccessPage_def)
  have d: "SuccessPage (loadPage (Some fd)) =
     (if \<not> hadUSIncome (incomeInfo fd) then Form8843OnlyView
      else case calculateTax (completeFormData fd) of
             Inl e \<Rightarrow> ErrorView
           | Inr result \<Rightarrow>
               ResultsView (\<not> hasNetUnderpayment result) (hasNetUnderpayment result))"
    by (simp add: SuccessPage_def loadPage_def split: sum.splits error.splits)
  have e: "hasNetUnderpayment (resultOf 200 0 0 500)"
    by (simp add: hasNetUnderpayment_def resultOf_def)
  from a b [of r] c d e b [of "resultOf 200 0 0 500"] show ?thesis
    by simp
qed

theorem C5_witness:
  "SuccessPage \<lparr>isCalculating = False, pageError = None,
                pageFormData = Some (formDataOf None None [w2Of 30000 2000 1000] []),
                pageTaxResult = Some (resultOf 529 0 0 343)\<rparr> = ResultsView True False"
proof -
  have n: "\<not> hasNetUnderpayment (resultOf 529 0 0 343)"
    by (simp add: hasNetUnderpayment_def resultOf_def)
  have h: "hadUSIncome (incomeInfo (formDataOf None None [w2Of 30000 2000 1000] []))"
    by (simp add: formDataOf_def)
  from C5_net_underpayment_refusal
    [of "resultOf 529 0 0 343" "formDataOf None None [w2Of 30000 2000 1000] []"]
  show ?thesis
    using n h by simp
qed

section \<open>Dispatch by country\<close>





section \<open>Schedule IL-WIT: the loop over the W-2 rows\<close>

lemma ilwitLoop_step:
  "i < min (length w2s) MAX_W2_ROWS \<Longrightarrow>
     ilwitLoop w2s i st = ilwitLoop w2s (i + 1) (ilwitRow (w2s ! i) i st)"
  by (subst ilwitLoop.simps) simp

lemma ilwitLoop_stop:
  "\<not> i < min (length w2s) MAX_W2_ROWS \<Longrightarrow> ilwitLoop w2s i st = st"
  by (subst ilwitLoop.simps) auto

lemma ilwitRow_total: "snd (ilwitRow w2 i st) = snd st + \<lfloor>W2Form.stateTaxWithheld w2\<rfloor>"
  by (simp add: ilwitRow_def Let_def)

lemma ilwitRow_fields:
  "fst (ilwitRow w2 i st) k =
     (let n = String_int (int i + 1)
      in if k = ''Illinois withheld - '' @ n
           then Some (String_int \<lfloor>W2Form.stateTaxWithheld w2\<rfloor>)
         else if k = ''Illinois wages - '' @ n
           then Some (formatCurrencyForPDFWholeOnly (wages w2))
         else if k = ''Federal wages - '' @ n
           then Some (formatCurrencyForPDFWholeOnly (wages w2))
         else if k = ''EIN - '' @ n then Some (digitsOnly (ein w2))
         else if k = ''Form type - '' @ n then Some ''W''
         else fst st k)"
  by (simp add: ilwitRow_def Let_def setTextField_def)

text \<open>The running total after the loop: the floored withholding of the rows it visited.\<close>

lemma ilwitLoop_total:
  "snd (ilwitLoop w2s i st) =
     snd st + sum_list (map (\<lambda>w2. \<lfloor>W2Form.stateTaxWithheld w2\<rfloor>)
                         (drop i (take MAX_W2_ROWS w2s)))"
proof (induction w2s i st rule: ilwitLoop.induct)
  case (1 w2s i st)
  show ?case
  proof (cases "i < min (length w2s) MAX_W2_ROWS")
    case True
    then have "i < length (take MAX_W2_ROWS w2s)" by simp
    then have "drop i (take MAX_W2_ROWS w2s) =
        take MAX_W2_ROWS w2s ! i # drop (Suc i) (take MAX_W2_ROWS w2s)"
      by (rule Cons_nth_drop_Suc [symmetric])
    with True have d: "drop i (take MAX_W2_ROWS w2s) =
        w2s ! i # drop (Suc i) (take MAX_W2_ROWS w2s)"
      by simp
    from True "1.IH" show ?thesis
      unfolding ilwitLoop_step [OF True] by (simp add: d ilwitRow_total)
  next
    case False
    moreover from False have "drop i (take MAX_W2_ROWS w2s) = []"
      by auto
    ultimately show ?thesis by (simp add: ilwitLoop_stop)
  qed
qed

text \<open>The loop never reads a W-2 past the fifth.\<close>

lemma ilwitLoop_take:
  "ilwitLoop (take MAX_W2_ROWS w2s) i st = ilwitLoop w2s i st"
proof (induction w2s i st rule: ilwitLoop.induct)
  case (1 w2s i st)
  show ?case
  proof (cases "i < min (length w2s) MAX_W2_ROWS")
    case True
    have l: "ilwitLoop (take MAX_W2_ROWS w2s) i st =
        ilwitLoop (take MAX_W2_ROWS w2s) (i + 1) (ilwitRow (w2s ! i) i st)"
      using True by (subst ilwitLoop.simps) simp
    from True "1.IH" show ?thesis
      unfolding l ilwitLoop_step [OF True] by simp
  next
    case False
    have l: "ilwitLoop (take MAX_W2_ROWS w2s) i st = st"
      using False by (subst ilwitLoop.simps) auto
    show ?thesis unfolding l ilwitLoop_stop [OF False] ..
  qed
qed

text \<open>The five row numbers are rendered as five different strings.\<close>

lemma rowLabels:
  "String_int 1 = ''1''" "String_int 2 = ''2''" "String_int 3 = ''3''"
  "String_int 4 = ''4''" "String_int 5 = ''5''"
  by code_simp+

lemma rowLabel_neq:
  assumes "i < 5" "j < 5" "i \<noteq> j"
  shows "String_int (int i + 1) \<noteq> String_int (int j + 1)"
proof -
  from assms(1) have i: "i = 0 \<or> i = 1 \<or> i = 2 \<or> i = 3 \<or> i = 4" by arith
  from assms(2) have j: "j = 0 \<or> j = 1 \<or> j = 2 \<or> j = 3 \<or> j = 4" by arith
  from i j assms(3) show ?thesis
    by (elim disjE) (simp_all add: rowLabels)
qed

lemma ilwitRow_withheld_other:
  assumes "k < 5" "i < 5" "k \<noteq> i"
  shows "fst (ilwitRow w2 i st) (''Illinois withheld - '' @ String_int (int k + 1)) =
         fst st (''Illinois withheld - '' @ String_int (int k + 1))"
  using rowLabel_neq [OF assms] by (simp add: ilwitRow_fields Let_def)

lemma ilwitRow_ein_other:
  assumes "k < 5" "i < 5" "k \<noteq> i"
  shows "fst (ilwitRow w2 i st) (''EIN - '' @ String_int (int k + 1)) =
         fst st (''EIN - '' @ String_int (int k + 1))"
  using rowLabel_neq [OF assms] by (simp add: ilwitRow_fields Let_def)

lemma ilwitLoop_keeps_earlier:
  "k < i \<Longrightarrow>
   fst (ilwitLoop w2s i st) (''Illinois withheld - '' @ String_int (int k + 1)) =
     fst st (''Illinois withheld - '' @ String_int (int k + 1)) \<and>
   fst (ilwitLoop w2s i st) (''EIN - '' @ String_int (int k + 1)) =
     fst st (''EIN - '' @ String_int (int k + 1))"
proof (induction w2s i st rule: ilwitLoop.induct)
  case (1 w2s i st)
  show ?case
  proof (cases "i < min (length w2s) MAX_W2_ROWS")
    case True
    then have i5: "i < 5" by (simp add: MAX_W2_ROWS_def)
    with "1.prems" have k5: "k < 5" and ne: "k \<noteq> i" by simp_all
    from "1.prems" have "k < i + 1" by simp
    with "1.IH" [OF True] have
      "fst (ilwitLoop w2s (i + 1) (ilwitRow (w2s ! i) i st))
          (''Illinois withheld - '' @ String_int (int k + 1)) =
        fst (ilwitRow (w2s ! i) i st) (''Illinois withheld - '' @ String_int (int k + 1)) \<and>
       fst (ilwitLoop w2s (i + 1) (ilwitRow (w2s ! i) i st))
          (''EIN - '' @ String_int (int k + 1)) =
        fst (ilwitRow (w2s ! i) i st) (''EIN - '' @ String_int (int k + 1))"
      by blast
    with ilwitRow_withheld_other [OF k5 i5 ne, of "w2s ! i" st]
      ilwitRow_ein_other [OF k5 i5 ne, of "w2s ! i" st]
    show ?thesis
      unfolding ilwitLoop_step [OF True] by simp
  next
    case False
    then show ?thesis by (simp add: ilwitLoop_stop)
  qed
qed

text \<open>Row \<open>k\<close> of the schedule, once the loop has passed it.\<close>

lemma ilwitLoop_row:
  "i \<le> k \<Longrightarrow> k < min (length w2s) MAX_W2_ROWS \<Longrightarrow>
   fst (ilwitLoop w2s i st) (''Illinois withheld - '' @ String_int (int k + 1)) =
     Some (String_int \<lfloor>W2Form.stateTaxWithheld (w2s ! k)\<rfloor>) \<and>
   fst (ilwitLoop w2s i st) (''EIN - '' @ String_int (int k + 1)) =
     Some (digitsOnly (ein (w2s ! k)))"
proof (induction w2s i st rule: ilwitLoop.induct)
  case (1 w2s i st)
  from "1.prems" have running: "i < min (length w2s) MAX_W2_ROWS" by simp
  show ?case
  proof (cases "i = k")
    case True
    with "1.prems" have "k < i + 1" by simp
    from ilwitLoop_keeps_earlier [OF this] show ?thesis
      unfolding ilwitLoop_step [OF running]
      using True by (simp add: ilwitRow_fields Let_def)
  next
    case False
    with "1.prems" have "i + 1 \<le> k" by simp
    from "1.IH" [OF running this "1.prems"(2)] show ?thesis
      unfolding ilwitLoop_step [OF running] .
  qed
qed


lemma ilwit_total_field:
  "fillFormIL1040ScheduleILWIT fd ''Total amount'' =
     Some (String_int (sum_list (map (\<lambda>w2. \<lfloor>W2Form.stateTaxWithheld w2\<rfloor>)
        (take 5 (w2Forms (incomeInfo fd))))))"
  using ilwitLoop_total [of "w2Forms (incomeInfo fd)" 0]
  by (simp add: fillFormIL1040ScheduleILWIT_def Let_def setTextField_def MAX_W2_ROWS_def)

lemma ilwit_first_five:
  "fillFormIL1040ScheduleILWIT
     (fd\<lparr>incomeInfo := (incomeInfo fd)\<lparr>w2Forms := take 5 (w2Forms (incomeInfo fd)),
            form1099INT := ints, form1099MISC := miscs\<rparr>\<rparr>) =
   fillFormIL1040ScheduleILWIT fd"
  using ilwitLoop_take [of "w2Forms (incomeInfo fd)" 0]
  by (simp add: fillFormIL1040ScheduleILWIT_def Let_def ssnOrEmpty_def MAX_W2_ROWS_def)

lemma ilwit_rows:
  assumes "k < min (length (w2Forms (incomeInfo fd))) 5"
  shows "fillFormIL1040ScheduleILWIT fd (''Illinois withheld - '' @ String_int (int k + 1)) =
     Some (String_int \<lfloor>W2Form.stateTaxWithheld (w2Forms (incomeInfo fd) ! k)\<rfloor>) \<and>
   fillFormIL1040ScheduleILWIT fd (''EIN - '' @ String_int (int k + 1)) =
     Some (digitsOnly (ein (w2Forms (incomeInfo fd) ! k)))"
proof -
  from assms have "k < min (length (w2Forms (incomeInfo fd))) MAX_W2_ROWS"
    by (simp add: MAX_W2_ROWS_def)
  from ilwitLoop_row [OF _ this, of 0] show ?thesis
    by (simp add: fillFormIL1040ScheduleILWIT_def Let_def setTextField_def)
qed


lemma six_w2s:
  "calculateStateTaxWithheld (formDataOf None None (replicate 6 (w2Of 30000 2000 100)) []) = 600 \<and>
   fillFormIL1040 (formDataOf None None (replicate 6 (w2Of 30000 2000 100)) [])
      ''Illinois Income Tax withheld'' = Some ''600'' \<and>
   fillFormIL1040ScheduleILWIT (formDataOf None None (replicate 6 (w2Of 30000 2000 100)) [])
      ''Total amount'' = Some ''500'' \<and>
   fillFormIL1040ScheduleILWIT (formDataOf None None (replicate 6 (w2Of 30000 2000 100)) [])
      ''Illinois withheld - 5'' = Some ''100'' \<and>
   fillFormIL1040ScheduleILWIT (formDataOf None None (replicate 6 (w2Of 30000 2000 100)) [])
      ''Illinois withheld - 6'' = None"
  by code_simp

text \<open>
  Claim C10. Schedule IL-WIT lists at most five W-2 rows. Its total is the sum of the
  floored state withholding of the first five W-2 entries; row \<open>k + 1\<close> holds the floored
  withholding of W-2 number \<open>k\<close> for each of the first five; and the whole schedule is
  the same when the W-2 entries after the fifth are dropped and the 1099-INT and
  1099-MISC entries are replaced by any others. With six W-2 entries of 100 each the
  total is 500 and no sixth row is written.
\<close>

theorem C10_schedule_first_five_w2:
  "fillFormIL1040ScheduleILWIT fd ''Total amount'' =
     Some (String_int (sum_list (map (\<lambda>w2. \<lfloor>W2Form.stateTaxWithheld w2\<rfloor>)
        (take 5 (w2Forms (incomeInfo fd)))))) \<and>
   (\<forall>k < min (length (w2Forms (incomeInfo fd))) 5.
      fillFormIL1040ScheduleILWIT fd (''Illinois withheld - '' @ String_int (int k + 1)) =
        Some (String_int \<lfloor>W2Form.stateTaxWithheld (w2Forms (incomeInfo fd) ! k)\<rfloor>)) \<and>
   fillFormIL1040ScheduleILWIT
     (fd\<lparr>incomeInfo := (incomeInfo fd)\<lparr>w2Forms := take 5 (w2Forms (incomeInfo fd)),
            form1099INT := ints, form1099MISC := miscs\<rparr>\<rparr>) =
     fillFormIL1040ScheduleILWIT fd \<and>
   fillFormIL1040ScheduleILWIT (formDataOf None None (replicate 6 (w2Of 30000 2000 100)) [])
      ''Total amount'' = Some ''500'' \<and>
   fillFormIL1040ScheduleILWIT (formDataOf None None (replicate 6 (w2Of 30000 2000 100)) [])
      ''Illinois withheld - 6'' = None"
  using ilwit_total_field [of fd] ilwit_rows [of _ fd]
    ilwit_first_five [where fd = fd and ints = ints and miscs = miscs]
    six_w2s
  by blast

theorem C10_witness:
  "fillFormIL1040ScheduleILWIT (formDataOf None None (replicate 6 (w2Of 30000 2000 100.75)) [])
      ''Illinois withheld - 5'' = Some ''100''"
proof -
  have len: "(4::nat) < min (length (w2Forms (incomeInfo
      (formDataOf None None (replicate 6 (w2Of 30000 2000 100.75)) [])))) 5"
    by (simp add: formDataOf_def)
  have row: "String_int \<lfloor>W2Form.stateTaxWithheld (w2Forms (incomeInfo
      (formDataOf None None (replicate 6 (w2Of 30000 2000 100.75)) [])) ! 4)\<rfloor> = ''100''"
    by code_simp
  have label: "''Illinois withheld - '' @ String_int (int 4 + 1) = ''Illinois withheld - 5''"
    by (simp add: rowLabels)
  from C10_schedule_first_five_w2
    [of "formDataOf None None (replicate 6 (w2Of 30000 2000 100.75)) []"]
  have "\<forall>k < min (length (w2Forms (incomeInfo
          (formDataOf None None (replicate 6 (w2Of 30000 2000 100.75)) [])))) 5.
      fillFormIL1040ScheduleILWIT (formDataOf None None (replicate 6 (w2Of 30000 2000 100.75)) [])
        (''Illinois withheld - '' @ String_int (int k + 1)) =
        Some (String_int \<lfloor>W2Form.stateTaxWithheld (w2Forms (incomeInfo
          (formDataOf None None (replicate 6 (w2Of 30000 2000 100.75)) [])) ! k)\<rfloor>)"
    by blast
  with len have "fillFormIL1040ScheduleILWIT
        (formDataOf None None (replicate 6 (w2Of 30000 2000 100.75)) [])
        (''Illinois withheld - '' @ String_int (int 4 + 1)) =
      Some (String_int \<lfloor>W2Form.stateTaxWithheld (w2Forms (incomeInfo
          (formDataOf None None (replicate 6 (w2Of 30000 2000 100.75)) [])) ! 4)\<rfloor>)"
    by blast
  then show ?thesis
    unfolding row label .
qed

section \<open>The Illinois withholding total on the calculation, the return and the schedule\<close>

lemma stateTaxWithheld_sum:
  "calculateStateTaxWithheld fd =
     sum_list (map (\<lambda>w2. \<lfloor>W2Form.stateTaxWithheld w2\<rfloor>) (w2Forms (incomeInfo fd))) +
     sum_list (map (\<lambda>f. \<lfloor>Form1099INT.stateTaxWithheld f\<rfloor>) (form1099INT (incomeInfo fd))) +
     sum_list (map (\<lambda>f. \<lfloor>Form1099MISC.stateTaxWithheld f\<rfloor>) (form1099MISC (incomeInfo fd)))"
  by (simp add: calculateStateTaxWithheld_def Let_def foldl_add_sum_list)

lemma stateTaxWithheldForForms_same:
  "calculateStateTaxWithheldForForms fd = calculateStateTaxWithheld fd"
  by (simp add: calculateStateTaxWithheldForForms_def calculateStateTaxWithheld_def)

lemma il1040_withheld_field:
  "fillFormIL1040 fd ''Illinois Income Tax withheld'' =
     Some (String_int (calculateStateTaxWithheld fd))"
  by (simp add: fillFormIL1040_def Let_def setTextField_def formatCurrencyForPDFWholeOnly_def
      stateTaxWithheldForForms_same)

text \<open>
  With at most five W-2 entries and no state withholding on any 1099 the schedule's
  total is the one of the calculation and of the return.
\<close>

lemma ilwit_total_agrees_when_it_fits:
  assumes "length (w2Forms (incomeInfo fd)) \<le> 5"
    and "sum_list (map (\<lambda>f. \<lfloor>Form1099INT.stateTaxWithheld f\<rfloor>)
           (form1099INT (incomeInfo fd))) = 0"
    and "sum_list (map (\<lambda>f. \<lfloor>Form1099MISC.stateTaxWithheld f\<rfloor>)
           (form1099MISC (incomeInfo fd))) = 0"
  shows "fillFormIL1040ScheduleILWIT fd ''Total amount'' =
     Some (String_int (calculateStateTaxWithheld fd))"
  using assms by (simp add: ilwit_total_field stateTaxWithheld_sum)

lemma one_1099_with_withholding:
  "calculateStateTaxWithheld (formDataOf None None [] [intOf 500 0 40]) = 40 \<and>
   fillFormIL1040 (formDataOf None None [] [intOf 500 0 40])
      ''Illinois Income Tax withheld'' = Some ''40'' \<and>
   fillFormIL1040ScheduleILWIT (formDataOf None None [] [intOf 500 0 40])
      ''Total amount'' = Some ''0''"
  by code_simp

text \<open>
  Claim C1. The withholding total of the state calculation and the one written on Form
  IL-1040 are the same, the sum of the floored withholding of every W-2, 1099-INT and
  1099-MISC entry. The total on Schedule IL-WIT is not always that sum: with six W-2
  entries of 100 each the calculation and the return have 600 and the schedule has 500;
  with no W-2 and one 1099-INT with a withholding of 40 the calculation and the return
  have 40 and the schedule has 0.
\<close>

theorem C1_schedule_total_differs:
  "calculateStateTaxWithheldForForms fd = calculateStateTaxWithheld fd \<and>
   fillFormIL1040 fd ''Illinois Income Tax withheld'' =
     Some (String_int (calculateStateTaxWithheld fd)) \<and>
   calculateStateTaxWithheld (formDataOf None None (replicate 6 (w2Of 30000 2000 100)) []) = 600 \<and>
   fillFormIL1040 (formDataOf None None (replicate 6 (w2Of 30000 2000 100)) [])
      ''Illinois Income Tax withheld'' = Some ''600'' \<and>
   fillFormIL1040ScheduleILWIT (formDataOf None None (replicate 6 (w2Of 30000 2000 100)) [])
      ''Total amount'' = Some ''500'' \<and>
   calculateStateTaxWithheld (formDataOf None None [] [intOf 500 0 40]) = 40 \<and>
   fillFormIL1040 (formDataOf None None [] [intOf 500 0 40])
      ''Illinois Income Tax withheld'' = Some ''40'' \<and>
   fillFormIL1040ScheduleILWIT (formDataOf None None [] [intOf 500 0 40])
      ''Total amount'' = Some ''0''"
  using stateTaxWithheldForForms_same [of fd] il1040_withheld_field [of fd] six_w2s
    one_1099_with_withholding
  by blast

section \<open>SSN and EIN fields\<close>





section \<open>Days of presence: monotonicity\<close>

lemma msPerDay_pos: "0 < msPerDay"
  by (simp add: msPerDay_def)

















section \<open>Days of presence: the count depends on the local time zone\<close>

lemma dateOnly_less [simp]: "dateOnly a < dateOnly b \<longleftrightarrow> a < b"
  using msPerDay_pos by (simp add: dateOnly_def)

lemma dateOnly_le [simp]: "dateOnly a \<le> dateOnly b \<longleftrightarrow> a \<le> b"
  using msPerDay_pos by (simp add: dateOnly_def)

lemma dateOnly_diff_div [simp]: "(dateOnly b - dateOnly a) div msPerDay = b - a"
  using msPerDay_pos by (simp add: dateOnly_def left_diff_distrib [symmetric])

lemma setHours0_utc: "tzOffset env = 0 \<Longrightarrow> setHours0 env t = dateOnly (t div msPerDay)"
  by (simp add: setHours0_def dateOnly_def minus_mod_eq_div_mult)

lemma setHours0_utc_dateOnly [simp]:
  "tzOffset env = 0 \<Longrightarrow> setHours0 env (dateOnly a) = dateOnly a"
  using msPerDay_pos by (simp add: setHours0_def dateOnly_def)

lemma dateOnly_div [simp]: "dateOnly a div msPerDay = a"
  using msPerDay_pos by (simp add: dateOnly_def)

lemma div_day_less:
  assumes "t < dateOnly e"
  shows "t div msPerDay < e"
proof -
  have "0 \<le> t mod msPerDay"
    using msPerDay_pos by simp
  moreover have "t div msPerDay * msPerDay = t - t mod msPerDay"
    by (simp add: minus_mod_eq_div_mult)
  ultimately have "t div msPerDay * msPerDay < e * msPerDay"
    using assms by (simp add: dateOnly_def)
  then show ?thesis
    using msPerDay_pos by simp
qed

lemma visitStep_utc:
  assumes "tzOffset env = 0"
  shows "visitStep env (dateOnly (daysFromCivil year 1 1))
           (t, dateOnly (daysFromCivil year 12 31)) v =
         (t + daysPresentOfVisit (now env) year v, dateOnly (daysFromCivil year 12 31))"
proof (cases "entryDate v")
  case None
  then show ?thesis by (simp add: visitStep_def daysPresentOfVisit_def)
next
  case (Some a)
  show ?thesis
  proof (cases "exitDate v")
    case (Some b)
    with \<open>entryDate v = Some a\<close> assms show ?thesis
      by (auto simp add: visitStep_def daysPresentOfVisit_def Let_def max_def)
  next
    case None
    show ?thesis
    proof (cases "now env < dateOnly (daysFromCivil year 12 31)")
      case True
      from div_day_less [OF True] have "dateOnly (now env div msPerDay) < dateOnly (daysFromCivil year 12 31)"
        by simp
      with True None \<open>entryDate v = Some a\<close> assms show ?thesis
        by (auto simp add: visitStep_def daysPresentOfVisit_def Let_def max_def setHours0_utc)
    next
      case False
      with None \<open>entryDate v = Some a\<close> assms show ?thesis
        by (auto simp add: visitStep_def daysPresentOfVisit_def Let_def max_def)
    qed
  qed
qed

text \<open>
  Where local time is UTC the function counts the days as its comments say, visit by
  visit.
\<close>

lemma foldl_visitStep_utc:
  assumes "tzOffset env = 0"
  shows "foldl (visitStep env (dateOnly (daysFromCivil year 1 1)))
           (t, dateOnly (daysFromCivil year 12 31)) vs =
         (t + sum_list (map (daysPresentOfVisit (now env) year) vs),
          dateOnly (daysFromCivil year 12 31))"
  by (induction vs arbitrary: t) (simp_all add: visitStep_utc [OF assms] add.assoc)

lemma calculateDaysInUSForYear_utc:
  assumes "tzOffset env = 0"
  shows "calculateDaysInUSForYear env r year =
         sum_list (map (daysPresentOfVisit (now env) year) (visits r))"
  by (simp add: calculateDaysInUSForYear_def Let_def foldl_visitStep_utc [OF assms])

text \<open>
  Claim C6. In a runtime whose local time is UTC, a visit from 1 January 2025 to
  2 January 2025 counts one day of 2025, and a visit that began on 15 August 2022 and
  has no exit date counts 365 days of the past year 2023. In a runtime six hours behind
  UTC the same inputs count 0 days and 364 days: the day of arrival, 1 January, is
  lost in the first, and the last day of the year, 31 December, in the second.
\<close>

theorem C6_days_lost_behind_utc:
  "calculateDaysInUSForYear (envOf 0 (daysFromCivil 2026 11 2))
     \<lparr>visits = [visitOf (Some (daysFromCivil 2025 1 1)) (Some (daysFromCivil 2025 1 2))]\<rparr>
     2025 = 1 \<and>
   calculateDaysInUSForYear (envOf (- 360) (daysFromCivil 2026 11 2))
     \<lparr>visits = [visitOf (Some (daysFromCivil 2025 1 1)) (Some (daysFromCivil 2025 1 2))]\<rparr>
     2025 = 0 \<and>
   calculateDaysInUSForYear (envOf 0 (daysFromCivil 2026 11 2))
     \<lparr>visits = [visitOf (Some (daysFromCivil 2022 8 15)) None]\<rparr> 2023 = 365 \<and>
   calculateDaysInUSForYear (envOf (- 360) (daysFromCivil 2026 11 2))
     \<lparr>visits = [visitOf (Some (daysFromCivil 2022 8 15)) None]\<rparr> 2023 = 364"
  by code_simp

end
